theory Spec2Isabelle
  imports Main
begin

section \<open>JavaScript values used by the component\<close>

text \<open>
  The component \<open>App\<close> (file part_000 of the sources) keeps five \<open>useState\<close> slots and has three
  handlers. Strings are modelled as lists of 8-bit characters read as Latin-1 code points
  (the code units below 256); the library functions \<open>trim\<close>, \<open>toLowerCase\<close> and the regular
  expression class \<open>\s\<close> are modelled on that alphabet.
\<close>

subsection \<open>Strings\<close>

definition is_js_space :: "char \<Rightarrow> bool" where
  \<comment> \<open>ECMAScript WhiteSpace and LineTerminator below 256: TAB, LF, VT, FF, CR, SP, NBSP.
      Both \<open>String.prototype.trim\<close> and the class \<open>\s\<close> use this set.\<close>
  "is_js_space c \<longleftrightarrow>
     (let n = (of_char c :: nat)
      in n = 9 \<or> n = 10 \<or> n = 11 \<or> n = 12 \<or> n = 13 \<or> n = 32 \<or> n = 160)"

definition trim :: "string \<Rightarrow> string" where
  \<comment> \<open>\<open>String.prototype.trim\<close>: white space removed from both ends.\<close>
  "trim s = rev (dropWhile is_js_space (rev (dropWhile is_js_space s)))"

definition toLowerCase_char :: "char \<Rightarrow> char" where
  \<comment> \<open>The Latin-1 letters with a lower-case partner: A-Z, and U+00C0-U+00DE without the
      multiplication sign U+00D7. The partner is 32 code points further.\<close>
  "toLowerCase_char c =
     (let n = (of_char c :: nat)
      in if (65 \<le> n \<and> n \<le> 90) \<or> (192 \<le> n \<and> n \<le> 222 \<and> n \<noteq> 215)
         then char_of (n + 32) else c)"

definition toLowerCase :: "string \<Rightarrow> string" where
  "toLowerCase s = map toLowerCase_char s"

function replace_spaces :: "string \<Rightarrow> string" where
  \<comment> \<open>\<open>s.replace(/\s+/g, "_")\<close>: scanning from the left, the greedy match \<open>\s+\<close> at a white
      space character takes the whole run, which is replaced by one underscore; the scan
      resumes behind the match.\<close>
  "replace_spaces [] = []"
| "replace_spaces (c # cs) =
     (if is_js_space c then CHR ''_'' # replace_spaces (dropWhile is_js_space cs)
      else c # replace_spaces cs)"
  by pat_completeness auto
termination
  by (relation "measure length") (auto simp: length_dropWhile_le less_Suc_eq_le)

definition digit_char :: "nat \<Rightarrow> char" where
  "digit_char d = char_of (48 + d)"

function show_nat :: "nat \<Rightarrow> string" where
  \<comment> \<open>The decimal numeral of a non-negative integer, as a template literal prints it.\<close>
  "show_nat n = (if n < 10 then [digit_char n] else show_nat (n div 10) @ [digit_char (n mod 10)])"
  by pat_completeness auto
termination
  by (relation "measure id") auto

declare show_nat.simps [simp del]

definition show_int :: "int \<Rightarrow> string" where
  "show_int i = (if i < 0 then CHR ''-'' # show_nat (nat (- i)) else show_nat (nat i))"

subsection \<open>Parsed JSON\<close>

text \<open>
  \<open>res.json()\<close> yields whatever JSON value the body holds; the annotation
  \<open>const data: MobData\<close> is erased at run time. Numbers are modelled as integers (no
  decision of the component depends on a number other than the status code). An object is
  the list of its properties, keys distinct.
\<close>

datatype json =
    JNull
  | JBool bool
  | JNum int
  | JStr string
  | JArr "json list"
  | JObj "(string \<times> json) list"

fun truthy :: "json \<Rightarrow> bool" where
  \<comment> \<open>ECMAScript ToBoolean, as used by \<open>!mob\<close> and \<open>state === "result" && mob\<close>.\<close>
  "truthy JNull = False"
| "truthy (JBool b) = b"
| "truthy (JNum n) = (n \<noteq> 0)"
| "truthy (JStr s) = (s \<noteq> [])"
| "truthy (JArr _) = True"
| "truthy (JObj _) = True"

fun get_prop :: "json \<Rightarrow> string \<Rightarrow> json option" where
  \<comment> \<open>Reading a property that no prototype defines (\<open>detail\<close>, \<open>name\<close>, \<open>health\<close>, ...):
      \<open>None\<close> is \<open>undefined\<close>. Only an object can have it; on \<open>null\<close> the optional chaining
      \<open>body?.detail\<close> gives \<open>undefined\<close> too.\<close>
  "get_prop (JObj kvs) k = map_of kvs k"
| "get_prop _ k = None"

fun join_comma :: "string list \<Rightarrow> string" where
  "join_comma [] = []"
| "join_comma [s] = s"
| "join_comma (s # t # ss) = s @ '','' @ join_comma (t # ss)"

fun js_ToString :: "json \<Rightarrow> string" where
  \<comment> \<open>ECMAScript ToString, which \<open>new Error(v)\<close> applies to its argument. An array prints
      its elements separated by commas, \<open>null\<close> elements as the empty string.\<close>
  "js_ToString JNull = ''null''"
| "js_ToString (JBool b) = (if b then ''true'' else ''false'')"
| "js_ToString (JNum n) = show_int n"
| "js_ToString (JStr s) = s"
| "js_ToString (JArr xs) =
     join_comma (map (\<lambda>x. if x = JNull then [] else js_ToString x) xs)"
| "js_ToString (JObj _) = ''[object Object]''"

subsection \<open>The declared shape of a mob\<close>

fun is_number :: "json option \<Rightarrow> bool" where
  "is_number (Some (JNum _)) = True"
| "is_number _ = False"

fun is_string :: "json option \<Rightarrow> bool" where
  "is_string (Some (JStr _)) = True"
| "is_string _ = False"

definition is_LootItem :: "json \<Rightarrow> bool" where
  \<comment> \<open>\<open>interface LootItem { item: string; min: number; max: number }\<close>\<close>
  "is_LootItem j \<longleftrightarrow>
     is_string (get_prop j ''item'') \<and> is_number (get_prop j ''min'')
     \<and> is_number (get_prop j ''max'')"

definition is_MobData :: "json \<Rightarrow> bool" where
  \<comment> \<open>\<open>interface MobData { name: string; health: number; attack_damage: number;
      abilities: string[]; loot: LootItem[] }\<close>\<close>
  "is_MobData j \<longleftrightarrow>
     is_string (get_prop j ''name'') \<and> is_number (get_prop j ''health'')
     \<and> is_number (get_prop j ''attack_damage'')
     \<and> (case get_prop j ''abilities'' of
           Some (JArr xs) \<Rightarrow> list_all (\<lambda>x. is_string (Some x)) xs | _ \<Rightarrow> False)
     \<and> (case get_prop j ''loot'' of
           Some (JArr xs) \<Rightarrow> list_all is_LootItem xs | _ \<Rightarrow> False)"

section \<open>The component state\<close>

datatype AppState = Idle | Loading | Result | Error

text \<open>
  The five \<open>useState\<close> slots. \<open>mob\<close> has type \<open>MobData | null\<close>; \<open>JNull\<close> is \<open>null\<close>. The
  empty string is the absent error (\<open>useState("")\<close>, \<open>setError("")\<close>).
\<close>

record app =
  prompt :: string
  state :: AppState
  mob :: json
  error :: string
  downloading :: bool

definition initial :: app where
  "initial = \<lparr>prompt = [], state = Idle, mob = JNull, error = [], downloading = False\<rparr>"

subsection \<open>What the network gives back\<close>

datatype thrown = ErrorObj string | NonError
  \<comment> \<open>A thrown value: an \<open>Error\<close> instance with its \<open>message\<close>, or anything else.\<close>

datatype 'a response = Response (status: nat) (body: "thrown + 'a")
  \<comment> \<open>A \<open>Response\<close>: its status code, and what reading the body (\<open>res.json()\<close> for the
      generation, \<open>res.blob()\<close> for the download) settles to: rejected or a value.\<close>

datatype 'a fetch_outcome = Rejected thrown | Resolved "'a response"
  \<comment> \<open>\<open>await fetch(...)\<close> either throws (no response at all) or yields a response.\<close>

definition ok :: "'a response \<Rightarrow> bool" where
  \<comment> \<open>\<open>res.ok\<close>: the status is in the range 200-299.\<close>
  "ok res \<longleftrightarrow> 200 \<le> status res \<and> status res \<le> 299"

datatype request = GenerateJson string | BuildAddon json
  \<comment> \<open>The two POST requests, with the value that is serialised into the body.\<close>

definition catch_message :: "string \<Rightarrow> thrown \<Rightarrow> string" where
  \<comment> \<open>\<open>err instanceof Error ? err.message : fallback\<close>\<close>
  "catch_message fallback err = (case err of ErrorObj m \<Rightarrow> m | NonError \<Rightarrow> fallback)"

section \<open>handleGenerate\<close>

text \<open>
  An \<open>async\<close> handler runs in two parts: up to its \<open>await fetch\<close> when it is called, and
  from there on when the request settles. Other handlers can run in between.
\<close>

definition handleGenerate_start :: "app \<Rightarrow> app \<times> request option" where
  \<comment> \<open>Lines 28-40: the guard, the three setters, and the request that is sent.\<close>
  "handleGenerate_start s =
     (if trim (prompt s) = [] then (s, None)
      else (s\<lparr>state := Loading, error := [], mob := JNull\<rparr>,
            Some (GenerateJson (trim (prompt s)))))"

definition server_error_message :: "json response \<Rightarrow> string" where
  \<comment> \<open>Lines 42-43: \<open>body = await res.json().catch(() => null)\<close>, then
      \<open>body?.detail ?? `Server error (${res.status})`\<close>, made a string by \<open>new Error\<close>.\<close>
  "server_error_message res =
     (let body = (case body res of Inl _ \<Rightarrow> JNull | Inr b \<Rightarrow> b)
      in case get_prop body ''detail'' of
           None \<Rightarrow> ''Server error ('' @ show_nat (status res) @ '')''
         | Some JNull \<Rightarrow> ''Server error ('' @ show_nat (status res) @ '')''
         | Some d \<Rightarrow> js_ToString d)"

definition generate_try :: "json fetch_outcome \<Rightarrow> thrown + json" where
  \<comment> \<open>The \<open>try\<close> block from the \<open>await fetch\<close> on (lines 36-45): the data, or what is thrown.\<close>
  "generate_try out =
     (case out of
        Rejected err \<Rightarrow> Inl err
      | Resolved res \<Rightarrow>
          if \<not> ok res then Inl (ErrorObj (server_error_message res))
          else body res)"

definition handleGenerate_resolve :: "json fetch_outcome \<Rightarrow> app \<Rightarrow> app" where
  \<comment> \<open>Lines 46-47 after the \<open>try\<close> block succeeded, lines 49-50 after it threw.\<close>
  "handleGenerate_resolve out s =
     (case generate_try out of
        Inr data \<Rightarrow> s\<lparr>mob := data, state := Result\<rparr>
      | Inl err \<Rightarrow> s\<lparr>error := catch_message ''Something went wrong'' err, state := Error\<rparr>)"

definition handleGenerate_run :: "json fetch_outcome \<Rightarrow> app \<Rightarrow> app" where
  \<comment> \<open>The handler run to completion, nothing else in between.\<close>
  "handleGenerate_run out s =
     (case handleGenerate_start s of
        (s', None) \<Rightarrow> s'
      | (s', Some _) \<Rightarrow> handleGenerate_resolve out s')"

section \<open>handleDownload\<close>

type_synonym blob = string

definition mob_name :: "json \<Rightarrow> string option" where
  \<comment> \<open>\<open>mob.name.toLowerCase()\<close> can be called when \<open>mob.name\<close> is a string; on anything else
      (\<open>undefined\<close>, \<open>null\<close>, a number, ...) the call throws a \<open>TypeError\<close>.\<close>
  "mob_name m = (case get_prop m ''name'' of Some (JStr n) \<Rightarrow> Some n | _ \<Rightarrow> None)"

definition filename :: "string \<Rightarrow> string" where
  \<comment> \<open>Line 68: \<open>`${mob.name.toLowerCase().replace(/\s+/g, "_")}.mcaddon`\<close>\<close>
  "filename name = replace_spaces (toLowerCase name) @ ''.mcaddon''"

definition handleDownload_start :: "app \<Rightarrow> app \<times> request option" where
  \<comment> \<open>Lines 55-62.\<close>
  "handleDownload_start s =
     (if \<not> truthy (mob s) then (s, None)
      else (s\<lparr>downloading := True\<rparr>, Some (BuildAddon (mob s))))"

definition download_try :: "string \<Rightarrow> json \<Rightarrow> blob fetch_outcome \<Rightarrow> thrown + blob \<times> string" where
  \<comment> \<open>The \<open>try\<close> block from the \<open>await fetch\<close> on (lines 58-72), for the \<open>mob\<close> the handler was
      called with: the blob and the name it is saved under, or what is thrown.
      \<open>type_error\<close> is the engine's message for the \<open>TypeError\<close> of line 68. The calls
      on \<open>URL\<close> and \<open>document\<close> (lines 65-72) are taken not to throw.\<close>
  "download_try type_error m out =
     (case out of
        Rejected err \<Rightarrow> Inl err
      | Resolved res \<Rightarrow>
          if \<not> ok res then Inl (ErrorObj (''Download failed ('' @ show_nat (status res) @ '')''))
          else (case body res of
                  Inl err \<Rightarrow> Inl err
                | Inr b \<Rightarrow>
                    (case mob_name m of
                       None \<Rightarrow> Inl (ErrorObj type_error)
                     | Some n \<Rightarrow> Inr (b, filename n))))"

definition handleDownload_resolve ::
  "string \<Rightarrow> json \<Rightarrow> blob fetch_outcome \<Rightarrow> app \<Rightarrow> app \<times> (blob \<times> string) option" where
  \<comment> \<open>Lines 64-77: the new state and the file that is saved, if any. \<open>finally\<close> resets
      \<open>downloading\<close> on both paths.\<close>
  "handleDownload_resolve type_error m out s =
     (case download_try type_error m out of
        Inr saved \<Rightarrow> (s\<lparr>downloading := False\<rparr>, Some saved)
      | Inl err \<Rightarrow> (s\<lparr>error := catch_message ''Download failed'' err, downloading := False\<rparr>, None))"

definition handleDownload_run :: "string \<Rightarrow> blob fetch_outcome \<Rightarrow> app \<Rightarrow> app" where
  \<comment> \<open>The handler run to completion, nothing else in between.\<close>
  "handleDownload_run type_error out s =
     (case handleDownload_start s of
        (s', None) \<Rightarrow> s'
      | (s', Some _) \<Rightarrow> fst (handleDownload_resolve type_error (mob s) out s'))"

section \<open>handleStartOver\<close>

definition handleStartOver :: "app \<Rightarrow> app" where
  \<comment> \<open>Lines 81-84.\<close>
  "handleStartOver s = s\<lparr>prompt := [], mob := JNull, error := [], state := Idle\<rparr>"

section \<open>What the rendered page lets the user do\<close>

datatype ui_event = Change string | Submit | ClickDownload | ClickStartOver

definition form_rendered :: "app \<Rightarrow> bool" where
  \<comment> \<open>Line 97.\<close>
  "form_rendered s \<longleftrightarrow> state s = Idle \<or> state s = Error"

definition result_rendered :: "app \<Rightarrow> bool" where
  \<comment> \<open>Line 124.\<close>
  "result_rendered s \<longleftrightarrow> state s = Result \<and> truthy (mob s)"

fun enabled :: "app \<Rightarrow> ui_event \<Rightarrow> bool" where
  \<comment> \<open>The textarea and the submit button (\<open>disabled={!prompt.trim()}\<close>) are in the form;
      the download button (\<open>disabled={downloading}\<close>) and the start-over button are in the
      result view.\<close>
  "enabled s (Change t) = form_rendered s"
| "enabled s Submit = (form_rendered s \<and> trim (prompt s) \<noteq> [])"
| "enabled s ClickDownload = (result_rendered s \<and> \<not> downloading s)"
| "enabled s ClickStartOver = result_rendered s"

fun dispatch :: "app \<Rightarrow> ui_event \<Rightarrow> app \<times> request option" where
  \<comment> \<open>The handler bound to an event runs when the page offers the event.\<close>
  "dispatch s (Change t) = (if enabled s (Change t) then (s\<lparr>prompt := t\<rparr>, None) else (s, None))"
| "dispatch s Submit = (if enabled s Submit then handleGenerate_start s else (s, None))"
| "dispatch s ClickDownload = (if enabled s ClickDownload then handleDownload_start s else (s, None))"
| "dispatch s ClickStartOver = (if enabled s ClickStartOver then (handleStartOver s, None) else (s, None))"

section \<open>Definitions that the properties are stated with\<close>

subsection \<open>The file name as the specification words it\<close>

fun collapse_runs :: "bool \<Rightarrow> string \<Rightarrow> string" where
  \<comment> \<open>Every run of white space becomes a single underscore: a white space character is
      replaced by an underscore when it starts a run and dropped when it continues one
      (\<open>prev\<close> tells whether the character before was white space).\<close>
  "collapse_runs prev [] = []"
| "collapse_runs prev (c # cs) =
     (if is_js_space c
      then (if prev then collapse_runs True cs else CHR ''_'' # collapse_runs True cs)
      else c # collapse_runs False cs)"

definition spec_filename :: "string \<Rightarrow> string" where
  \<comment> \<open>Lowercase the name, collapse all runs of white space to a single underscore, append
      the fixed artifact extension.\<close>
  "spec_filename name = collapse_runs False (map toLowerCase_char name) @ ''.mcaddon''"

definition read_nat :: "string \<Rightarrow> nat" where
  \<comment> \<open>Reading a decimal numeral back, to say which number a printed status code is.\<close>
  "read_nat s = foldl (\<lambda>a c. 10 * a + (of_char c - 48)) 0 s"

subsection \<open>Concrete states\<close>

definition zombie :: json where
  "zombie = JObj [(''name'', JStr ''Zombie King''), (''health'', JNum 40),
     (''attack_damage'', JNum 6), (''abilities'', JArr [JStr ''summon'']),
     (''loot'', JArr [JObj [(''item'', JStr ''bone''), (''min'', JNum 1), (''max'', JNum 3)]])]"

definition typed :: app where
  \<comment> \<open>A prompt has been typed.\<close>
  "typed = \<lparr>prompt = ''zombie king'', state = Idle, mob = JNull, error = [],
     downloading = False\<rparr>"

definition in_flight :: app where
  \<comment> \<open>The generation request is under way.\<close>
  "in_flight = \<lparr>prompt = ''zombie king'', state = Loading, mob = JNull, error = [],
     downloading = False\<rparr>"

definition shown :: app where
  \<comment> \<open>The generated mob is shown.\<close>
  "shown = \<lparr>prompt = ''zombie king'', state = Result, mob = zombie, error = [],
     downloading = False\<rparr>"

definition failed_once :: app where
  \<comment> \<open>A download of the shown mob has failed with status 500.\<close>
  "failed_once = \<lparr>prompt = ''zombie king'', state = Result, mob = zombie,
     error = ''Download failed (500)'', downloading = False\<rparr>"

definition saving :: app where
  \<comment> \<open>A download of the shown mob is under way.\<close>
  "saving = \<lparr>prompt = ''zombie king'', state = Result, mob = zombie, error = [],
     downloading = True\<rparr>"

definition incomplete :: json where
  \<comment> \<open>A body with a name and nothing else.\<close>
  "incomplete = JObj [(''name'', JStr ''Zombie King'')]"

definition orphaned :: app where
  \<comment> \<open>A mob is stored while the state is \<open>Error\<close>: two calls of \<open>handleGenerate\<close> overlapped,
      the first answered with the zombie, the second with status 500.\<close>
  "orphaned = \<lparr>prompt = ''zombie king'', state = Error, mob = zombie,
     error = ''Server error (500)'', downloading = False\<rparr>"

subsection \<open>The creature is stored in the result state only\<close>

definition creature_only_in_result :: "app \<Rightarrow> bool" where
  "creature_only_in_result s \<longleftrightarrow> mob s = JNull \<or> state s = Result"

datatype operation =
    SetPrompt string
  | Generate "json fetch_outcome"
  | Download string "blob fetch_outcome"
  | StartOver

fun run_op :: "app \<Rightarrow> operation \<Rightarrow> app" where
  \<comment> \<open>One operation run to completion, with what the network answered.\<close>
  "run_op s (SetPrompt t) = s\<lparr>prompt := t\<rparr>"
| "run_op s (Generate out) = handleGenerate_run out s"
| "run_op s (Download type_error out) = handleDownload_run type_error out s"
| "run_op s StartOver = handleStartOver s"

section \<open>Auxiliary facts\<close>

lemma collapse_runs_replace:
  "collapse_runs True cs = replace_spaces (dropWhile is_js_space cs)
   \<and> collapse_runs False cs = replace_spaces cs"
  by (induction cs) simp_all

lemma digit_char_value: "d < 10 \<Longrightarrow> of_char (digit_char d) = 48 + d"
  by (simp add: digit_char_def)

text \<open>The printed status code is the decimal numeral of the status.\<close>

lemma read_nat_show_nat: "read_nat (show_nat n) = n"
proof (induction n rule: show_nat.induct)
  case (1 n)
  show ?case
  proof (cases "n < 10")
    case True
    then show ?thesis
      by (subst show_nat.simps) (simp add: read_nat_def digit_char_value)
  next
    case False
    have "read_nat (show_nat n) = 10 * read_nat (show_nat (n div 10)) + n mod 10"
      using False by (subst show_nat.simps) (simp add: read_nat_def digit_char_value)
    with 1 False show ?thesis by simp
  qed
qed

lemma show_nat_500: "show_nat 500 = ''500''"
  by code_simp

lemma is_MobData_zombie: "is_MobData zombie"
  by code_simp

text \<open>The concrete states are the ones the page goes through.\<close>

lemma reach_typed: "dispatch initial (Change ''zombie king'') = (typed, None)"
  by code_simp

lemma reach_in_flight: "dispatch typed Submit = (in_flight, Some (GenerateJson ''zombie king''))"
  by code_simp

lemma reach_shown:
  "handleGenerate_resolve (Resolved (Response 200 (Inr zombie))) in_flight = shown"
  by code_simp

lemma reach_saving: "dispatch shown ClickDownload = (saving, Some (BuildAddon zombie))"
  by code_simp

lemma reach_failed_once:
  "handleDownload_run type_error (Resolved (Response 500 (Inr []))) shown = failed_once"
  by code_simp

lemma typed_not_blank: "trim (prompt typed) \<noteq> []"
  by code_simp

lemma reach_orphaned:
  "handleGenerate_resolve (Resolved (Response 500 (Inr JNull)))
     (handleGenerate_resolve (Resolved (Response 200 (Inr zombie)))
        (fst (handleGenerate_start in_flight))) = orphaned"
  by code_simp

text \<open>While a generation is under way the page offers no event at all.\<close>

lemma loading_offers_nothing: "state s = Loading \<Longrightarrow> \<not> enabled s ev"
  by (cases ev) (simp_all add: form_rendered_def result_rendered_def)

text \<open>What the two handlers do to \<open>error\<close> before their request goes out.\<close>

lemma generate_start_clears_error:
  "trim (prompt s) \<noteq> [] \<Longrightarrow>
   error (fst (handleGenerate_start s)) = [] \<and> state (fst (handleGenerate_start s)) = Loading"
  by (simp add: handleGenerate_start_def)

lemma download_start_keeps_error: "error (fst (handleDownload_start s)) = error s"
  by (simp add: handleDownload_start_def)

text \<open>The second part of \<open>handleDownload\<close> writes \<open>error\<close> and \<open>downloading\<close> only.\<close>

lemma download_resolve_frame:
  "state (fst (handleDownload_resolve type_error m out s)) = state s
   \<and> mob (fst (handleDownload_resolve type_error m out s)) = mob s
   \<and> prompt (fst (handleDownload_resolve type_error m out s)) = prompt s
   \<and> \<not> downloading (fst (handleDownload_resolve type_error m out s))"
  by (simp add: handleDownload_resolve_def split: sum.splits)

lemma download_run_frame:
  "state (handleDownload_run type_error out s) = state s
   \<and> mob (handleDownload_run type_error out s) = mob s
   \<and> prompt (handleDownload_run type_error out s) = prompt s"
  by (simp add: handleDownload_run_def handleDownload_start_def download_resolve_frame)

text \<open>Each operation keeps \<open>creature_only_in_result\<close>.\<close>

lemma generate_run_invariant:
  "creature_only_in_result s \<Longrightarrow> creature_only_in_result (handleGenerate_run out s)"
  by (auto simp: creature_only_in_result_def handleGenerate_run_def handleGenerate_start_def
      handleGenerate_resolve_def split: sum.splits)

lemma generate_start_invariant:
  "creature_only_in_result s \<Longrightarrow> creature_only_in_result (fst (handleGenerate_start s))"
  by (simp add: creature_only_in_result_def handleGenerate_start_def)

lemma download_run_invariant:
  "creature_only_in_result s \<Longrightarrow> creature_only_in_result (handleDownload_run type_error out s)"
  by (simp add: creature_only_in_result_def download_run_frame)

lemma start_over_invariant: "creature_only_in_result (handleStartOver s)"
  by (simp add: creature_only_in_result_def handleStartOver_def)

lemma run_op_invariant:
  "creature_only_in_result s \<Longrightarrow> creature_only_in_result (run_op s op)"
proof (cases op)
  case (SetPrompt t)
  assume "creature_only_in_result s"
  with SetPrompt show ?thesis
    by (simp add: creature_only_in_result_def)
qed (simp_all add: generate_run_invariant download_run_invariant start_over_invariant)

lemma run_ops_invariant:
  "creature_only_in_result s \<Longrightarrow> creature_only_in_result (foldl run_op s ops)"
  by (induction ops arbitrary: s) (simp_all add: run_op_invariant)

section \<open>generate with a blank prompt\<close>

text \<open>
  Claim C8. For every prompt whose trimmed content is empty, generate is a no-op: the state
  (so also \<open>AppState\<close> and \<open>error\<close>) is unchanged and no network request is issued, both at
  the call and when the handler has run to completion.
\<close>

theorem generate_blank_prompt_noop:
  "trim (prompt s) = [] \<Longrightarrow>
   handleGenerate_start s = (s, None) \<and> handleGenerate_run out s = s"
  by (simp add: handleGenerate_start_def handleGenerate_run_def)

theorem generate_blank_prompt_noop_witness:
  "trim (prompt (initial\<lparr>prompt := ''  ''\<rparr>)) = []
   \<and> handleGenerate_start (initial\<lparr>prompt := ''  ''\<rparr>) = (initial\<lparr>prompt := ''  ''\<rparr>, None)"
proof -
  have blank: "trim (prompt (initial\<lparr>prompt := ''  ''\<rparr>)) = []"
    by code_simp
  from generate_blank_prompt_noop [OF blank] blank show ?thesis
    by simp
qed

section \<open>The name of the saved file\<close>

text \<open>
  Claim C7. The file name is a function of the mob's name alone: the name in lower case,
  every run of white space collapsed to one underscore, and the extension \<open>.mcaddon\<close>
  appended. The source's \<open>filename\<close> agrees with the specification's wording
  \<open>spec_filename\<close> on every name; "Fire Dragon Boss" gives \<open>fire_dragon_boss.mcaddon\<close>
  and "A   B" gives \<open>a_b.mcaddon\<close>; a download that succeeds saves the file under
  \<open>filename\<close> of the mob's name, whatever the rest of the state is.
\<close>

theorem filename_derivation:
  "filename name = spec_filename name
   \<and> filename ''Fire Dragon Boss'' = ''fire_dragon_boss.mcaddon''
   \<and> filename ''A   B'' = ''a_b.mcaddon''
   \<and> (ok res \<and> body res = Inr b \<and> mob_name m = Some name \<longrightarrow>
        snd (handleDownload_resolve type_error m (Resolved res) s) = Some (b, filename name))"
proof (intro conjI)
  show "filename name = spec_filename name"
    by (simp add: filename_def spec_filename_def toLowerCase_def collapse_runs_replace)
  show "filename ''Fire Dragon Boss'' = ''fire_dragon_boss.mcaddon''"
    by code_simp
  show "filename ''A   B'' = ''a_b.mcaddon''"
    by code_simp
  show "ok res \<and> body res = Inr b \<and> mob_name m = Some name \<longrightarrow>
        snd (handleDownload_resolve type_error m (Resolved res) s) = Some (b, filename name)"
    by (simp add: handleDownload_resolve_def download_try_def)
qed

theorem filename_derivation_witness:
  "filename ''Zombie King'' = spec_filename ''Zombie King''
   \<and> snd (handleDownload_resolve ''mob.name is undefined'' zombie
            (Resolved (Response 200 (Inr ''PK''))) saving)
     = Some (''PK'', ''zombie_king.mcaddon'')"
proof -
  have o: "ok (Response 200 (Inr ''PK'') :: blob response)"
    by (simp add: ok_def)
  have n: "mob_name zombie = Some ''Zombie King''"
    by code_simp
  have f: "filename ''Zombie King'' = ''zombie_king.mcaddon''"
    by code_simp
  from filename_derivation [of "''Zombie King''" "Response 200 (Inr ''PK'')" "''PK''" zombie
         "''mob.name is undefined''" saving] o n f
  show ?thesis
    by simp
qed

section \<open>A generation that the server refuses\<close>

text \<open>
  Claim C6. For a generate call (prompt not blank) whose response has a non-success
  status: when the body parses and has a string \<open>detail\<close>, \<open>error\<close> becomes exactly that
  string; when the body cannot be parsed, or parses and has no \<open>detail\<close>, \<open>error\<close> becomes
  "Server error (" followed by the decimal status code and ")"; in every case \<open>AppState\<close>
  becomes \<open>Error\<close>.
\<close>

theorem generate_non_success_error:
  assumes "\<not> ok res" and "trim (prompt s) \<noteq> []"
  shows "(body res = Inr b \<and> get_prop b ''detail'' = Some (JStr d) \<longrightarrow>
            handleGenerate_run (Resolved res) s = s\<lparr>state := Error, error := d, mob := JNull\<rparr>)
       \<and> (isl (body res) \<or> (body res = Inr b \<and> get_prop b ''detail'' = None) \<longrightarrow>
            handleGenerate_run (Resolved res) s
            = s\<lparr>state := Error,
                error := ''Server error ('' @ show_nat (status res) @ '')'', mob := JNull\<rparr>)
       \<and> state (handleGenerate_run (Resolved res) s) = Error"
  using assms
  by (auto simp: handleGenerate_run_def handleGenerate_start_def handleGenerate_resolve_def
      generate_try_def server_error_message_def catch_message_def isl_def)

theorem generate_non_success_error_witness:
  "handleGenerate_run
     (Resolved (Response 500 (Inr (JObj [(''detail'', JStr ''bad prompt'')])))) typed
     = typed\<lparr>state := Error, error := ''bad prompt'', mob := JNull\<rparr>
   \<and> handleGenerate_run (Resolved (Response 500 (Inl (ErrorObj ''Unexpected token <'')))) typed
     = typed\<lparr>state := Error, error := ''Server error (500)'', mob := JNull\<rparr>"
proof -
  have n1: "\<not> ok (Response 500 (Inr (JObj [(''detail'', JStr ''bad prompt'')])))"
    by (simp add: ok_def)
  have n2: "\<not> ok (Response 500 (Inl (ErrorObj ''Unexpected token <'')) :: json response)"
    by (simp add: ok_def)
  from generate_non_success_error [OF n1 typed_not_blank,
         of "JObj [(''detail'', JStr ''bad prompt'')]" "''bad prompt''"]
       generate_non_success_error [OF n2 typed_not_blank] show_nat_500
  show ?thesis
    by simp
qed

section \<open>The error slot when a request starts\<close>

text \<open>
  Claim C2. Every transition into \<open>Loading\<close> and every transition into
  \<open>downloading = true\<close> clears \<open>error\<close> before the request is issued. \<open>handleGenerate\<close>
  does (\<open>generate_start_clears_error\<close>); \<open>handleDownload\<close> has no \<open>setError("")\<close>
  (\<open>download_start_keeps_error\<close>). After a download that failed with status 500, the next
  download goes out with "Download failed (500)" still in \<open>error\<close>, and the message is
  still there when that download has succeeded.
\<close>

theorem download_retry_keeps_error:
  "dispatch failed_once ClickDownload
     = (failed_once\<lparr>downloading := True\<rparr>, Some (BuildAddon zombie))
   \<and> handleDownload_start failed_once
     = (failed_once\<lparr>downloading := True\<rparr>, Some (BuildAddon zombie))
   \<and> error (fst (handleDownload_start failed_once)) = ''Download failed (500)''
   \<and> error (handleDownload_run ''mob.name is undefined''
              (Resolved (Response 200 (Inr ''PK''))) failed_once)
     = ''Download failed (500)''"
  by code_simp

section \<open>generate while a generation is under way\<close>

text \<open>
  Claim C3, as stated: called while \<open>AppState\<close> is \<open>Loading\<close>, generate is rejected and
  issues no request. \<open>handleGenerate\<close> does not look at \<open>state\<close>: in the state \<open>in_flight\<close>
  it issues a second request.
\<close>

theorem generate_while_loading_counterexample:
  "state in_flight = Loading
   \<and> handleGenerate_start in_flight = (in_flight, Some (GenerateJson ''zombie king''))"
  by code_simp

text \<open>
  Claim C3, amended. The page keeps the call from happening: the form that submits to
  \<open>handleGenerate\<close> is rendered in the states \<open>Idle\<close> and \<open>Error\<close> only, so while
  \<open>AppState\<close> is \<open>Loading\<close> a submit is not offered, no request is issued and the state is
  unchanged. The handler itself, called in \<open>Loading\<close> with a prompt that is not blank, sets
  \<open>state\<close>, \<open>error\<close> and \<open>mob\<close> again and issues a request.
\<close>

theorem generate_while_loading:
  assumes "state s = Loading"
  shows "\<not> enabled s Submit \<and> dispatch s Submit = (s, None)
       \<and> (trim (prompt s) \<noteq> [] \<longrightarrow>
            handleGenerate_start s
            = (s\<lparr>state := Loading, error := [], mob := JNull\<rparr>,
               Some (GenerateJson (trim (prompt s)))))"
  using assms by (simp add: form_rendered_def handleGenerate_start_def)

theorem generate_while_loading_witness:
  "state in_flight = Loading \<and> dispatch in_flight Submit = (in_flight, None)
   \<and> snd (handleGenerate_start in_flight) = Some (GenerateJson ''zombie king'')"
proof -
  have l: "state in_flight = Loading"
    by (simp add: in_flight_def)
  have p: "trim (prompt in_flight) = ''zombie king''"
    by code_simp
  from generate_while_loading [OF l] l p show ?thesis
    by simp
qed

section \<open>The guards of download\<close>

text \<open>
  Claim C5, as stated: download is a no-op without a network call when the creature is
  absent, when \<open>downloading\<close> is already true, or when the state is not \<open>Result\<close>.
  \<open>handleDownload\<close> tests \<open>mob\<close> only: with a mob stored it issues the request while
  \<open>downloading\<close> is true (\<open>saving\<close>) and while the state is \<open>Error\<close> (\<open>orphaned\<close>).
\<close>

theorem download_guard_counterexample:
  "downloading saving
   \<and> handleDownload_start saving = (saving, Some (BuildAddon zombie))
   \<and> state orphaned \<noteq> Result
   \<and> handleDownload_start orphaned = (orphaned\<lparr>downloading := True\<rparr>, Some (BuildAddon zombie))"
  by code_simp

text \<open>
  Claim C5, amended. \<open>handleDownload\<close> is a no-op without a network call when the creature
  is absent (falsy). The other two conditions are guarded by the page: the download button
  is rendered only in the result view (state \<open>Result\<close> and a mob stored) and is disabled
  while \<open>downloading\<close> is true, so in each of the three conditions a click is not offered,
  no request is issued and the state is unchanged.
\<close>

theorem download_guards:
  "(\<not> truthy (mob s) \<longrightarrow> handleDownload_start s = (s, None))
   \<and> (\<not> truthy (mob s) \<or> downloading s \<or> state s \<noteq> Result \<longrightarrow>
        \<not> enabled s ClickDownload \<and> dispatch s ClickDownload = (s, None))"
  by (auto simp: handleDownload_start_def result_rendered_def)

theorem download_guards_witness:
  "handleDownload_start initial = (initial, None)
   \<and> dispatch initial ClickDownload = (initial, None)
   \<and> dispatch saving ClickDownload = (saving, None)
   \<and> dispatch orphaned ClickDownload = (orphaned, None)"
proof -
  have a: "\<not> truthy (mob initial)"
    by (simp add: initial_def)
  have b: "downloading saving"
    by (simp add: saving_def)
  have c: "state orphaned \<noteq> Result"
    by (simp add: orphaned_def)
  from download_guards [of initial] download_guards [of saving] download_guards [of orphaned]
       a b c
  show ?thesis
    by simp
qed

section \<open>A response that arrives after startOver\<close>

text \<open>
  Claim C1, as stated: a generation response that resolves after \<open>startOver\<close> is discarded
  and leaves the state at \<open>Idle\<close>, no creature, no error. The handlers carry no token:
  the late response is applied to the reset state.
\<close>

theorem stale_generation_counterexample:
  "handleGenerate_start typed = (in_flight, Some (GenerateJson ''zombie king''))
   \<and> handleStartOver in_flight = initial
   \<and> handleGenerate_resolve (Resolved (Response 200 (Inr zombie))) (handleStartOver in_flight)
     = \<lparr>prompt = [], state = Result, mob = zombie, error = [], downloading = False\<rparr>"
  by code_simp

text \<open>
  Claim C1, amended. When \<open>handleStartOver\<close> runs while a generation request is in flight,
  the response that resolves afterwards is applied to the reset state like any other: a
  success makes the state \<open>Result\<close> with the body as creature, a failure makes the state
  \<open>Error\<close> with the failure message as \<open>error\<close>; the prompt stays empty. The page offers
  the start-over button in the result view only, so it is not offered while the request
  is in flight.
\<close>

theorem stale_generation_applied:
  assumes "trim (prompt s) \<noteq> []"
  shows "snd (handleGenerate_start s) = Some (GenerateJson (trim (prompt s)))
       \<and> \<not> enabled (fst (handleGenerate_start s)) ClickStartOver
       \<and> (ok res \<and> body res = Inr d \<longrightarrow>
            handleGenerate_resolve (Resolved res) (handleStartOver (fst (handleGenerate_start s)))
            = \<lparr>prompt = [], state = Result, mob = d, error = [],
                downloading = downloading s\<rparr>)
       \<and> (\<not> ok res \<longrightarrow>
            handleGenerate_resolve (Resolved res) (handleStartOver (fst (handleGenerate_start s)))
            = \<lparr>prompt = [], state = Error, mob = JNull, error = server_error_message res,
                downloading = downloading s\<rparr>)
       \<and> handleGenerate_resolve (Rejected err) (handleStartOver (fst (handleGenerate_start s)))
            = \<lparr>prompt = [], state = Error, mob = JNull,
                error = catch_message ''Something went wrong'' err,
                downloading = downloading s\<rparr>"
  using assms
  by (cases s)
     (simp add: handleGenerate_start_def handleStartOver_def handleGenerate_resolve_def
       generate_try_def catch_message_def result_rendered_def)

theorem stale_generation_applied_witness:
  "handleGenerate_resolve (Resolved (Response 201 (Inr zombie)))
     (handleStartOver (fst (handleGenerate_start typed)))
     = \<lparr>prompt = [], state = Result, mob = zombie, error = [], downloading = False\<rparr>
   \<and> handleGenerate_resolve (Resolved (Response 500 (Inr JNull)))
     (handleStartOver (fst (handleGenerate_start typed)))
     = \<lparr>prompt = [], state = Error, mob = JNull, error = ''Server error (500)'',
         downloading = False\<rparr>"
proof -
  have o: "ok (Response 201 (Inr zombie))"
    by (simp add: ok_def)
  have n: "\<not> ok (Response 500 (Inr JNull))"
    by (simp add: ok_def)
  have m: "server_error_message (Response 500 (Inr JNull)) = ''Server error (500)''"
    by code_simp
  have d: "downloading typed = False"
    by (simp add: typed_def)
  from stale_generation_applied [OF typed_not_blank, of "Response 201 (Inr zombie)" zombie]
       stale_generation_applied [OF typed_not_blank, of "Response 500 (Inr JNull)"] o n m d
  show ?thesis
    by simp
qed

section \<open>A success response with an incomplete body\<close>

text \<open>
  Claim C4, as stated: a success response whose body lacks a required field of the
  creature description ends in a \<open>MalformedResponse\<close> error and not in \<open>Result\<close>. The body
  \<open>incomplete\<close> has a name only, and the handler stores it and enters \<open>Result\<close>.
\<close>

theorem generate_incomplete_body_counterexample:
  "\<not> is_MobData incomplete \<and> get_prop incomplete ''health'' = None
   \<and> handleGenerate_run (Resolved (Response 200 (Inr incomplete))) typed
     = \<lparr>prompt = ''zombie king'', state = Result, mob = incomplete, error = [],
         downloading = False\<rparr>"
  by code_simp

text \<open>
  Claim C4, amended. For a generate call (prompt not blank) whose response has a success
  status: a body that parses as JSON is stored as the creature as it is, no field is
  checked, and the state becomes \<open>Result\<close>; a body that does not parse makes the state
  \<open>Error\<close> with the parser's message as \<open>error\<close>.
\<close>

theorem generate_success_unvalidated:
  assumes "ok res" and "trim (prompt s) \<noteq> []"
  shows "(body res = Inr d \<longrightarrow>
            handleGenerate_run (Resolved res) s = s\<lparr>state := Result, error := [], mob := d\<rparr>)
       \<and> (body res = Inl err \<longrightarrow>
            handleGenerate_run (Resolved res) s
            = s\<lparr>state := Error, error := catch_message ''Something went wrong'' err,
                mob := JNull\<rparr>)"
  using assms
  by (simp add: handleGenerate_run_def handleGenerate_start_def handleGenerate_resolve_def
      generate_try_def)

theorem generate_success_unvalidated_witness:
  "handleGenerate_run (Resolved (Response 200 (Inr (JObj [])))) typed
     = typed\<lparr>state := Result, error := [], mob := JObj []\<rparr>
   \<and> handleGenerate_run
       (Resolved (Response 200 (Inl (ErrorObj ''Unexpected end of JSON input'')))) typed
     = typed\<lparr>state := Error, error := ''Unexpected end of JSON input'', mob := JNull\<rparr>"
proof -
  have o1: "ok (Response 200 (Inr (JObj [])))"
    by (simp add: ok_def)
  have o2: "ok (Response 200 (Inl (ErrorObj ''Unexpected end of JSON input'')) :: json response)"
    by (simp add: ok_def)
  from generate_success_unvalidated [OF o1 typed_not_blank, of "JObj []"]
       generate_success_unvalidated [OF o2 typed_not_blank,
         of _ "ErrorObj ''Unexpected end of JSON input''"]
  show ?thesis
    by (simp add: catch_message_def)
qed

section \<open>The creature is stored in the result state only\<close>

text \<open>
  Claim C9. \<open>creature_only_in_result\<close> (the stored creature is \<open>null\<close> or the state is
  \<open>Result\<close>) holds initially and is kept by generate, download and startOver, each run to
  completion, so it holds after every sequence of such operations; it also holds in
  between, when generate has entered \<open>Loading\<close>. Equivalently: outside \<open>Result\<close> the
  creature is absent.
\<close>

theorem creature_only_in_result_invariant:
  "creature_only_in_result initial
   \<and> (creature_only_in_result s \<longrightarrow>
        creature_only_in_result (handleGenerate_run out s)
        \<and> creature_only_in_result (fst (handleGenerate_start s))
        \<and> creature_only_in_result (handleDownload_run type_error dout s)
        \<and> creature_only_in_result (handleStartOver s))
   \<and> creature_only_in_result (foldl run_op initial ops)
   \<and> (state (foldl run_op initial ops) \<noteq> Result \<longrightarrow> mob (foldl run_op initial ops) = JNull)"
proof -
  have i: "creature_only_in_result initial"
    by (simp add: creature_only_in_result_def initial_def)
  have r: "creature_only_in_result (foldl run_op initial ops)"
    using i by (rule run_ops_invariant)
  have a: "state (foldl run_op initial ops) \<noteq> Result \<longrightarrow> mob (foldl run_op initial ops) = JNull"
    using r unfolding creature_only_in_result_def by blast
  have p: "creature_only_in_result s \<longrightarrow>
        creature_only_in_result (handleGenerate_run out s)
        \<and> creature_only_in_result (fst (handleGenerate_start s))
        \<and> creature_only_in_result (handleDownload_run type_error dout s)
        \<and> creature_only_in_result (handleStartOver s)"
    by (simp add: generate_run_invariant generate_start_invariant download_run_invariant
        start_over_invariant)
  from i p r a show ?thesis
    by blast
qed

theorem creature_only_in_result_invariant_witness:
  "creature_only_in_result shown
   \<and> creature_only_in_result (handleGenerate_run (Resolved (Response 500 (Inr JNull))) shown)
   \<and> state (handleGenerate_run (Resolved (Response 500 (Inr JNull))) shown) = Error
   \<and> mob (handleGenerate_run (Resolved (Response 500 (Inr JNull))) shown) = JNull
   \<and> state (foldl run_op initial
        [SetPrompt ''zombie king'', Generate (Resolved (Response 200 (Inr zombie))), StartOver])
      = Idle
   \<and> mob (foldl run_op initial
        [SetPrompt ''zombie king'', Generate (Resolved (Response 200 (Inr zombie))), StartOver])
      = JNull"
proof -
  have h: "creature_only_in_result shown"
    by (simp add: creature_only_in_result_def shown_def)
  have e: "handleGenerate_run (Resolved (Response 500 (Inr JNull))) shown
      = \<lparr>prompt = ''zombie king'', state = Error, mob = JNull, error = ''Server error (500)'',
          downloading = False\<rparr>"
    by code_simp
  have f: "state (foldl run_op initial
        [SetPrompt ''zombie king'', Generate (Resolved (Response 200 (Inr zombie))), StartOver])
      = Idle"
    by code_simp
  from creature_only_in_result_invariant
         [of shown "Resolved (Response 500 (Inr JNull))" "''mob.name is undefined''"
            "Rejected NonError"
            "[SetPrompt ''zombie king'', Generate (Resolved (Response 200 (Inr zombie))), StartOver]"]
       h e f
  show ?thesis
    by simp
qed

section \<open>A download that fails\<close>

text \<open>
  Claim C10. When a download (called with a creature stored) fails, by a non-success
  status or by a transport error, the state afterwards is the state before with \<open>error\<close>
  set to the failure message and \<open>downloading\<close> false. Whatever the outcome, the state
  stays \<open>Result\<close>, creature and prompt are unchanged, and \<open>downloading\<close> is false afterwards.
\<close>

theorem download_failure_atomic:
  assumes "truthy (mob s)"
  shows "(\<not> ok res \<longrightarrow>
            handleDownload_run type_error (Resolved res) s
            = s\<lparr>error := ''Download failed ('' @ show_nat (status res) @ '')'',
                downloading := False\<rparr>)
       \<and> handleDownload_run type_error (Rejected err) s
            = s\<lparr>error := catch_message ''Download failed'' err, downloading := False\<rparr>
       \<and> (state s = Result \<longrightarrow> state (handleDownload_run type_error out s) = Result)
       \<and> mob (handleDownload_run type_error out s) = mob s
       \<and> prompt (handleDownload_run type_error out s) = prompt s
       \<and> \<not> downloading (handleDownload_run type_error out s)"
proof -
  have frame: "state (handleDownload_run type_error out s) = state s
      \<and> mob (handleDownload_run type_error out s) = mob s
      \<and> prompt (handleDownload_run type_error out s) = prompt s"
    by (rule download_run_frame)
  have off: "\<not> downloading (handleDownload_run type_error out s)"
    using assms
    by (simp add: handleDownload_run_def handleDownload_start_def download_resolve_frame)
  have status: "\<not> ok res \<longrightarrow>
      handleDownload_run type_error (Resolved res) s
      = s\<lparr>error := ''Download failed ('' @ show_nat (status res) @ '')'',
          downloading := False\<rparr>"
    using assms
    by (simp add: handleDownload_run_def handleDownload_start_def handleDownload_resolve_def
        download_try_def catch_message_def)
  have transport: "handleDownload_run type_error (Rejected err) s
      = s\<lparr>error := catch_message ''Download failed'' err, downloading := False\<rparr>"
    using assms
    by (simp add: handleDownload_run_def handleDownload_start_def handleDownload_resolve_def
        download_try_def)
  from frame off status transport show ?thesis
    by simp
qed

theorem download_failure_atomic_witness:
  "handleDownload_run ''mob.name is undefined'' (Resolved (Response 503 (Inr []))) shown
     = shown\<lparr>error := ''Download failed (503)'', downloading := False\<rparr>
   \<and> handleDownload_run ''mob.name is undefined'' (Rejected (ErrorObj ''Failed to fetch'')) shown
     = shown\<lparr>error := ''Failed to fetch'', downloading := False\<rparr>
   \<and> state (handleDownload_run ''mob.name is undefined'' (Rejected NonError) shown) = Result"
proof -
  have t: "truthy (mob shown)"
    by (simp add: shown_def zombie_def)
  have n: "\<not> ok (Response 503 (Inr []) :: blob response)"
    by (simp add: ok_def)
  have m: "show_nat 503 = ''503''"
    by code_simp
  have r: "state shown = Result"
    by (simp add: shown_def)
  from download_failure_atomic [OF t, of "Response 503 (Inr [])" "''mob.name is undefined''"
         "ErrorObj ''Failed to fetch''" "Rejected NonError"] n m r
  show ?thesis
    by (simp add: catch_message_def)
qed

end
